theory Spec2Isabelle
  imports Main
begin

section \<open>Error values\<close>

text \<open>
  Go error values as the package builds them. \<open>ErrorString\<close> is a value made by
  \<open>errors.New\<close> in this package (the ten package-level variables; their texts are pairwise
  different, so the text identifies the variable). \<open>WrapError\<close> is what
  \<open>fmt.Errorf\<close> returns for a format with one \<open>%w\<close>: the formatted message and the wrapped
  error. \<open>JoinError\<close> is what \<open>errors.Join\<close> returns. \<open>External\<close> is an error value
  made outside this package (by the docker client, by the \<open>nat\<close> package or by a stream);
  it carries its message and is opaque otherwise: the package never inspects one, and such a
  value is none of the package's own variables.
\<close>

datatype error =
    ErrorString string
  | WrapError string error
  | JoinError "error list"
  | External string

definition ErrCreatingDockerClient :: error where
  "ErrCreatingDockerClient = ErrorString ''error creating docker client''"

definition ErrConnectingToDocker :: error where
  "ErrConnectingToDocker = ErrorString ''error connecting to docker''"

definition ErrListingImages :: error where
  "ErrListingImages = ErrorString ''error listing docker images''"

definition ErrImageNotPresent :: error where
  "ErrImageNotPresent = ErrorString ''docker image is not present''"

definition ErrReadingPulledImage :: error where
  "ErrReadingPulledImage = ErrorString ''error reading image during pull''"

definition ErrPullingImage :: error where
  "ErrPullingImage = ErrorString ''error pulling image''"

definition ErrCreatingContainer :: error where
  "ErrCreatingContainer = ErrorString ''error creating container''"

definition ErrStartingContainer :: error where
  "ErrStartingContainer = ErrorString ''error starting container''"

definition ErrTimeout :: error where
  "ErrTimeout = ErrorString ''operation timed out''"

definition ErrPortMap :: error where
  "ErrPortMap = ErrorString ''portmap error''"

text \<open>Joining message lines with a newline, as \<open>joinError.Error\<close> does.\<close>

fun join_lines :: "string list \<Rightarrow> string" where
  "join_lines [] = []"
| "join_lines [l] = l"
| "join_lines (l # m # ls) = l @ [CHR 0x0A] @ join_lines (m # ls)"

text \<open>The method \<open>Error()\<close>: the message of an error value.\<close>

fun Error :: "error \<Rightarrow> string" where
  "Error (ErrorString s) = s"
| "Error (WrapError msg e) = msg"
| "Error (JoinError es) = join_lines (map Error es)"
| "Error (External msg) = msg"

text \<open>
  \<open>errors.Is(err, target)\<close> for a non-nil \<open>err\<close>: the value itself, then what it unwraps to
  (one error for \<open>WrapError\<close>, each of the joined errors for \<open>JoinError\<close>).
\<close>

fun errors_Is :: "error \<Rightarrow> error \<Rightarrow> bool" where
  "errors_Is (ErrorString s) target = (ErrorString s = target)"
| "errors_Is (WrapError msg e) target = (WrapError msg e = target \<or> errors_Is e target)"
| "errors_Is (JoinError es) target = (JoinError es = target \<or> list_ex (\<lambda>e. errors_Is e target) es)"
| "errors_Is (External msg) target = (External msg = target)"

text \<open>\<open>fmt.Errorf("%w: %s", e, s)\<close>, the only format the package uses.\<close>

definition fmt_Errorf :: "error \<Rightarrow> string \<Rightarrow> error" where
  "fmt_Errorf e s = WrapError (Error e @ '': '' @ s) e"

text \<open>\<open>errors.Join\<close>: nil arguments are dropped; nil when nothing is left.\<close>

definition errors_Join :: "error option list \<Rightarrow> error option" where
  "errors_Join errs =
     (case List.map_filter id errs of
        [] \<Rightarrow> None
      | es \<Rightarrow> Some (JoinError es))"

section \<open>Time and contexts\<close>

text \<open>\<open>time.Duration\<close> counts nanoseconds.\<close>

type_synonym Duration = int

definition Millisecond :: Duration where
  "Millisecond = 1000000"

definition Second :: Duration where
  "Second = 1000 * Millisecond"

definition dockerConnectTimeout :: Duration where
  "dockerConnectTimeout = 10 * Second"

definition dockerImageVerifyTimeout :: Duration where
  "dockerImageVerifyTimeout = 10 * Second"

definition dockerPullTimeout :: Duration where
  "dockerPullTimeout = 60 * Second"

definition dockerCreateContainerTimeout :: Duration where
  "dockerCreateContainerTimeout = 10 * Second"

definition dockerStartContainerTimeout :: Duration where
  "dockerStartContainerTimeout = 10 * Second"

definition dockerRemoveContainerTimeout :: Duration where
  "dockerRemoveContainerTimeout = 10 * Second"

definition dockerRemoveImageTimeout :: Duration where
  "dockerRemoveImageTimeout = 10 * Second"

text \<open>
  A context is the background context or one derived from a parent by
  \<open>context.WithTimeout\<close>; the derived one keeps its parent and its own timeout.
\<close>

datatype ctx = Background | WithTimeout ctx Duration

section \<open>The docker client and what is done with it\<close>

record ListOptions =
  Filters :: "(string \<times> string) list"

record PullOptions =
  pull_All :: bool

record Summary =
  ID :: string

record Config =
  cfg_Image :: string
  cfg_Tty :: bool

record PortBinding =
  HostIP :: string
  HostPort :: string

text \<open>\<open>nat.PortMap\<close>: from a port token such as \<open>80/tcp\<close> to its bindings.\<close>

type_synonym PortMap = "string \<rightharpoonup> PortBinding list"

record HostConfig =
  hc_PortBindings :: PortMap
  hc_AutoRemove :: bool

record CreateResponse =
  resp_ID :: string

record ContainerState =
  Running :: bool

record ContainerJSON =
  State :: ContainerState

record RemoveOptions =
  rm_RemoveVolumes :: bool
  rm_Force :: bool

record ImageRemoveOptions =
  irm_Force :: bool
  irm_PruneChildren :: bool

text \<open>\<open>filters.NewArgs()\<close> and \<open>Add\<close>.\<close>

definition filters_NewArgs :: "(string \<times> string) list" where
  "filters_NewArgs = []"

definition filters_Add :: "(string \<times> string) list \<Rightarrow> string \<Rightarrow> string \<Rightarrow> (string \<times> string) list" where
  "filters_Add args k v = args @ [(k, v)]"

text \<open>
  A pull stream is the sequence of what its \<open>Read\<close> calls give: chunks of bytes, possibly
  a failure; a stream with nothing left gives \<open>io.EOF\<close>.
\<close>

datatype read_result = Chunk string | ReadFails string

type_synonym stream = "read_result list"

text \<open>
  The client answers each call from its arguments; an error it returns is an external error,
  given by its message. What the package never looks at is left out: the empty
  \<open>StartOptions\<close> passed to \<open>ContainerStart\<close> and the list of deleted images that
  \<open>ImageRemove\<close> returns beside its error.
\<close>

record client =
  Ping :: "ctx \<Rightarrow> string option"
  ImageList :: "ctx \<Rightarrow> ListOptions \<Rightarrow> string + Summary list"
  ImagePull :: "ctx \<Rightarrow> string \<Rightarrow> PullOptions \<Rightarrow> string + stream"
  ContainerCreate ::
    "ctx \<Rightarrow> Config \<Rightarrow> HostConfig \<Rightarrow> unit option \<Rightarrow> unit option \<Rightarrow> string \<Rightarrow> string + CreateResponse"
  ContainerStart :: "ctx \<Rightarrow> string \<Rightarrow> string option"
  ContainerInspect :: "nat \<Rightarrow> ctx \<Rightarrow> string \<Rightarrow> string + ContainerJSON"
  ContainerRemove :: "ctx \<Rightarrow> string \<Rightarrow> RemoveOptions \<Rightarrow> string option"
  ImageRemove :: "ctx \<Rightarrow> string \<Rightarrow> ImageRemoveOptions \<Rightarrow> string option"

text \<open>
  \<open>ContainerInspect\<close> takes the number of inspections made before: the daemon's answer
  changes while the container starts. \<open>ContainerCreate\<close> takes the network configuration
  and the platform, both always nil here.

  What an operation does, in order: calls on the client, reads of a stream, log lines,
  the ticker, and the cancelling of its context.
\<close>

datatype effect =
    CallPing ctx
  | CallImageList ctx ListOptions
  | CallImagePull ctx string PullOptions
  | StreamRead "read_result option"
  | CallContainerCreate ctx Config HostConfig "unit option" "unit option" string
  | CallContainerStart ctx string
  | CallContainerInspect ctx string
  | CallContainerRemove ctx string RemoveOptions
  | CallImageRemove ctx string ImageRemoveOptions
  | NewTicker Duration
  | TickerStop
  | SlogInfo string string string
  | Cancel ctx

text \<open>\<open>defer cancel()\<close>: the context is cancelled when the body has returned.\<close>

definition defer_cancel :: "ctx \<Rightarrow> 'a \<times> effect list \<Rightarrow> 'a \<times> effect list" where
  "defer_cancel c r = (fst r, snd r @ [Cancel c])"

section \<open>VerifyHaveImage\<close>

definition VerifyHaveImage :: "client \<Rightarrow> string \<Rightarrow> error option \<times> effect list" where
  "VerifyHaveImage cl dockerImage =
     (let c = WithTimeout Background dockerImageVerifyTimeout;
          filterArgs = filters_Add filters_NewArgs ''reference'' dockerImage;
          opts = \<lparr>Filters = filterArgs\<rparr>
      in defer_cancel c
           (case ImageList cl c opts of
              Inl err \<Rightarrow>
                (errors_Join [Some ErrListingImages, Some (External err)], [CallImageList c opts])
            | Inr images \<Rightarrow>
                if length images > 0 then (None, [CallImageList c opts])
                else (Some (fmt_Errorf ErrImageNotPresent dockerImage), [CallImageList c opts])))"

section \<open>PullImage\<close>

text \<open>
  \<open>io.Copy(io.Discard, image)\<close>: read until the stream ends or a read fails; the bytes are
  counted and thrown away. The result is the count, the error (nil at \<open>io.EOF\<close>) and the
  reads made.
\<close>

fun io_Copy_Discard :: "stream \<Rightarrow> nat \<times> string option \<times> effect list" where
  "io_Copy_Discard [] = (0, None, [StreamRead None])"
| "io_Copy_Discard (Chunk s # rest) =
     (case io_Copy_Discard rest of
        (n, err, reads) \<Rightarrow> (length s + n, err, StreamRead (Some (Chunk s)) # reads))"
| "io_Copy_Discard (ReadFails msg # rest) = (0, Some msg, [StreamRead (Some (ReadFails msg))])"

definition PullImage :: "client \<Rightarrow> string \<Rightarrow> error option \<times> effect list" where
  "PullImage cl dockerImage =
     (case VerifyHaveImage cl dockerImage of
        (err, verified) \<Rightarrow>
          if err = None
          then (None, verified @ [SlogInfo ''already have image, not pulling'' ''dockerImage'' dockerImage])
          else
            (let c = WithTimeout Background dockerPullTimeout;
                 info = SlogInfo ''did not have image, pulling'' ''dockerImage'' dockerImage;
                 opts = \<lparr>pull_All = False\<rparr>;
                 r = defer_cancel c
                   (case ImagePull cl c dockerImage opts of
                      Inl perr \<Rightarrow>
                        (errors_Join [Some (fmt_Errorf ErrPullingImage dockerImage), Some (External perr)],
                         [info, CallImagePull c dockerImage opts])
                    | Inr image_stream \<Rightarrow>
                        (case io_Copy_Discard image_stream of
                           (n, rerr, reads) \<Rightarrow>
                             (case rerr of
                                Some msg \<Rightarrow>
                                  (errors_Join [Some ErrReadingPulledImage, Some (External msg)],
                                   [info, CallImagePull c dockerImage opts] @ reads)
                              | None \<Rightarrow>
                                  (None,
                                   [info, CallImagePull c dockerImage opts] @ reads @
                                   [SlogInfo ''done pulling image'' ''dockerImage'' dockerImage]))))
             in (fst r, verified @ snd r)))"

section \<open>CreateClient\<close>


section \<open>CreateContainer\<close>

text \<open>
  The loop over \<open>ports\<close>. A Go map is visited in an order the runtime picks, so the map
  is given as the list of its entries (host port, container port) in the order of the visit;
  the host ports, being keys, are pairwise different. \<open>nat.NewPort\<close> belongs to another
  package and is the parameter \<open>NewPort\<close>: protocol and port string to an external error
  or a port token.
\<close>

fun port_loop ::
  "(string \<Rightarrow> string \<Rightarrow> string + string) \<Rightarrow> (string \<times> string) list \<Rightarrow> PortMap \<Rightarrow> error option + PortMap"
where
  "port_loop NewPort [] portmap = Inr portmap"
| "port_loop NewPort ((hPort, cPort) # rest) portmap =
     (case NewPort ''tcp'' cPort of
        Inl err \<Rightarrow> Inl (errors_Join [Some ErrPortMap, Some (External err)])
      | Inr containerPort \<Rightarrow>
          port_loop NewPort rest
            (portmap(containerPort \<mapsto> [\<lparr>HostIP = ''0.0.0.0'', HostPort = hPort\<rparr>])))"

definition CreateContainer ::
  "(string \<Rightarrow> string \<Rightarrow> string + string) \<Rightarrow> client \<Rightarrow> string \<Rightarrow> string \<Rightarrow> (string \<times> string) list
     \<Rightarrow> (string \<times> error option) \<times> effect list"
where
  "CreateContainer NewPort cl dockerImage containerName ports =
     (let containerConfig = \<lparr>cfg_Image = dockerImage, cfg_Tty = False\<rparr>
      in case port_loop NewPort ports Map.empty of
           Inl err \<Rightarrow> (('''', err), [])
         | Inr portmap \<Rightarrow>
             (let containerHostConfig = \<lparr>hc_PortBindings = portmap, hc_AutoRemove = True\<rparr>;
                  c = WithTimeout Background dockerCreateContainerTimeout
              in defer_cancel c
                   (case ContainerCreate cl c containerConfig containerHostConfig None None containerName of
                      Inl err \<Rightarrow>
                        (('''', errors_Join [Some ErrCreatingContainer, Some (External err)]),
                         [CallContainerCreate c containerConfig containerHostConfig None None containerName])
                    | Inr created \<Rightarrow>
                        ((resp_ID created, None),
                         [CallContainerCreate c containerConfig containerHostConfig None None containerName]))))"

text \<open>
  Modelled from the spec: \<open>nat.NewPort\<close> of the package \<open>go-connections/nat\<close> is not among
  the sources. The spec says that the container port string is parsed into a port token
  qualified by the protocol and that an invalid numeric string fails. Here a string of
  decimal digits gives the token \<open>digits/protocol\<close> and any other string fails. It is
  used only to run the code on concrete inputs.
\<close>

definition is_digit :: "char \<Rightarrow> bool" where
  "is_digit ch = (ch \<in> set ''0123456789'')"

definition nat_NewPort :: "string \<Rightarrow> string \<Rightarrow> string + string" where
  "nat_NewPort proto port =
     (if port \<noteq> [] \<and> list_all is_digit port then Inr (port @ ''/'' @ proto)
      else Inl (''invalid port: '' @ port))"

section \<open>StartContainer\<close>

text \<open>
  Each turn of the loop waits in \<open>select\<close> for the ticker's channel or for the context's
  \<open>Done\<close> channel. Which of them is received at each turn is decided by the clock and the
  scheduler, not by the code: it is the input \<open>sched\<close>, one entry for each turn. When the
  entries run out the loop is still waiting: it has not returned, the result is \<open>None\<close>.
  \<open>n\<close> counts the inspections made so far.
\<close>

datatype select_case = TickerC | CtxDone

fun poll :: "client \<Rightarrow> ctx \<Rightarrow> string \<Rightarrow> nat \<Rightarrow> select_case list \<Rightarrow> error option option \<times> effect list" where
  "poll cl c containerID n [] = (None, [])"
| "poll cl c containerID n (TickerC # sched) =
     (case ContainerInspect cl n c containerID of
        Inl err \<Rightarrow>
          (Some (errors_Join [Some (fmt_Errorf ErrStartingContainer containerID), Some (External err)]),
           [CallContainerInspect c containerID])
      | Inr state \<Rightarrow>
          if Running (State state) then (Some None, [CallContainerInspect c containerID])
          else (case poll cl c containerID (Suc n) sched of
                  (r, inspected) \<Rightarrow> (r, CallContainerInspect c containerID # inspected)))"
| "poll cl c containerID n (CtxDone # sched) = (Some (Some ErrTimeout), [])"

text \<open>The deferred calls run when the function returns, last deferred first.\<close>

definition StartContainer :: "client \<Rightarrow> string \<Rightarrow> select_case list \<Rightarrow> error option option \<times> effect list" where
  "StartContainer cl containerID sched =
     (let c = WithTimeout Background dockerStartContainerTimeout
      in case ContainerStart cl c containerID of
           Some err \<Rightarrow>
             (Some (errors_Join [Some (fmt_Errorf ErrStartingContainer containerID), Some (External err)]),
              [CallContainerStart c containerID, Cancel c])
         | None \<Rightarrow>
             (case poll cl c containerID 0 sched of
                (None, inspected) \<Rightarrow>
                  (None, [CallContainerStart c containerID, NewTicker (100 * Millisecond)] @ inspected)
              | (Some r, inspected) \<Rightarrow>
                  (Some r,
                   [CallContainerStart c containerID, NewTicker (100 * Millisecond)] @ inspected @
                   [TickerStop, Cancel c])))"

section \<open>RemoveContainer and RemoveImage\<close>



section \<open>Observing the operations\<close>

text \<open>
  The answers of the client to the two calls of \<open>VerifyHaveImage\<close> and \<open>PullImage\<close>,
  with the arguments these functions pass.
\<close>

definition list_answer :: "client \<Rightarrow> string \<Rightarrow> string + Summary list" where
  "list_answer cl dockerImage =
     ImageList cl (WithTimeout Background dockerImageVerifyTimeout) \<lparr>Filters = [(''reference'', dockerImage)]\<rparr>"

definition pull_answer :: "client \<Rightarrow> string \<Rightarrow> string + stream" where
  "pull_answer cl dockerImage =
     ImagePull cl (WithTimeout Background dockerPullTimeout) dockerImage \<lparr>pull_All = False\<rparr>"

fun is_pull :: "effect \<Rightarrow> bool" where
  "is_pull (CallImagePull c ref opts) = True"
| "is_pull other = False"

fun is_read :: "effect \<Rightarrow> bool" where
  "is_read (StreamRead r) = True"
| "is_read other = False"

text \<open>
  A client whose answers are fixed, for running the operations on concrete inputs: the
  answer to the listing, the answer to the pull, and the answer to each inspection.
\<close>

definition stub_client :: "string + Summary list \<Rightarrow> string + stream \<Rightarrow> (nat \<Rightarrow> string + ContainerJSON) \<Rightarrow> client" where
  "stub_client listed pulled inspected =
     \<lparr>Ping = (\<lambda>c. None),
      ImageList = (\<lambda>c opts. listed),
      ImagePull = (\<lambda>c ref opts. pulled),
      ContainerCreate = (\<lambda>c config hostConfig net platform name. Inr \<lparr>resp_ID = ''c0ffee''\<rparr>),
      ContainerStart = (\<lambda>c containerID. None),
      ContainerInspect = (\<lambda>n c containerID. inspected n),
      ContainerRemove = (\<lambda>c containerID opts. None),
      ImageRemove = (\<lambda>c ref opts. None)\<rparr>"

text \<open>
  The \<open>k\<close>-th inspection made by \<open>StartContainer\<close> succeeds and reports a container
  that is not running.
\<close>

definition not_running :: "client \<Rightarrow> string \<Rightarrow> nat \<Rightarrow> bool" where
  "not_running cl containerID k =
     (case ContainerInspect cl k (WithTimeout Background dockerStartContainerTimeout) containerID of
        Inl msg \<Rightarrow> False
      | Inr state \<Rightarrow> \<not> Running (State state))"

text \<open>
  For the port translation: the host port of the entry visited last among those whose
  container port gives the token \<open>p\<close>; the one binding the loop stores for a host
  port; and a ports map all of whose container ports are accepted by \<open>NewPort\<close>.
\<close>

definition last_host :: "(string \<Rightarrow> string \<Rightarrow> string + string) \<Rightarrow> (string \<times> string) list \<Rightarrow> string \<Rightarrow> string option" where
  "last_host NewPort ports p = map_of (rev (map (\<lambda>(h, c). (NewPort ''tcp'' c, h)) ports)) (Inr p)"

definition bind_all :: "string \<Rightarrow> PortBinding list" where
  "bind_all hPort = [\<lparr>HostIP = ''0.0.0.0'', HostPort = hPort\<rparr>]"

definition all_valid :: "(string \<Rightarrow> string \<Rightarrow> string + string) \<Rightarrow> (string \<times> string) list \<Rightarrow> bool" where
  "all_valid NewPort ports = list_all (\<lambda>(h, c). case NewPort ''tcp'' c of Inl msg \<Rightarrow> False | Inr p \<Rightarrow> True) ports"

text \<open>
  The calls an operation makes on the client, in order: the method and the context it is
  called with.
\<close>

fun call_of :: "effect \<Rightarrow> (string \<times> ctx) option" where
  "call_of (CallPing c) = Some (''Ping'', c)"
| "call_of (CallImageList c opts) = Some (''ImageList'', c)"
| "call_of (CallImagePull c ref opts) = Some (''ImagePull'', c)"
| "call_of (CallContainerCreate c config hostConfig net platform name) = Some (''ContainerCreate'', c)"
| "call_of (CallContainerStart c containerID) = Some (''ContainerStart'', c)"
| "call_of (CallContainerInspect c containerID) = Some (''ContainerInspect'', c)"
| "call_of (CallContainerRemove c containerID opts) = Some (''ContainerRemove'', c)"
| "call_of (CallImageRemove c ref opts) = Some (''ImageRemove'', c)"
| "call_of (StreamRead r) = None"
| "call_of (NewTicker d) = None"
| "call_of TickerStop = None"
| "call_of (SlogInfo msg k v) = None"
| "call_of (Cancel c) = None"

fun calls :: "effect list \<Rightarrow> (string \<times> ctx) list" where
  "calls [] = []"
| "calls (e # es) = (case call_of e of None \<Rightarrow> calls es | Some x \<Rightarrow> x # calls es)"

section \<open>Facts about the error values and the operations\<close>

lemmas sentinel_defs =
  ErrCreatingDockerClient_def ErrConnectingToDocker_def ErrListingImages_def
  ErrImageNotPresent_def ErrReadingPulledImage_def ErrPullingImage_def
  ErrCreatingContainer_def ErrStartingContainer_def ErrTimeout_def ErrPortMap_def

lemmas timeout_defs =
  dockerConnectTimeout_def dockerImageVerifyTimeout_def dockerPullTimeout_def
  dockerCreateContainerTimeout_def dockerStartContainerTimeout_def
  dockerRemoveContainerTimeout_def dockerRemoveImageTimeout_def

lemma errors_Join_two: "errors_Join [Some a, Some b] = Some (JoinError [a, b])"
  by (simp add: errors_Join_def List.map_filter_def)

lemma VerifyHaveImage_fst:
  "fst (VerifyHaveImage cl dockerImage) =
     (case list_answer cl dockerImage of
        Inl msg \<Rightarrow> Some (JoinError [ErrListingImages, External msg])
      | Inr images \<Rightarrow> if images = [] then Some (fmt_Errorf ErrImageNotPresent dockerImage) else None)"
  by (simp add: VerifyHaveImage_def list_answer_def defer_cancel_def Let_def errors_Join_two
      filters_Add_def filters_NewArgs_def split: sum.splits)

lemma VerifyHaveImage_snd:
  "snd (VerifyHaveImage cl dockerImage) =
     [CallImageList (WithTimeout Background dockerImageVerifyTimeout) \<lparr>Filters = [(''reference'', dockerImage)]\<rparr>,
      Cancel (WithTimeout Background dockerImageVerifyTimeout)]"
  by (simp add: VerifyHaveImage_def defer_cancel_def Let_def
      filters_Add_def filters_NewArgs_def split: sum.splits)

section \<open>VerifyHaveImage: the three outcomes\<close>

text \<open>
  C2. \<open>VerifyHaveImage\<close> returns nil exactly when the listing succeeds with at least one
  image. When the listing succeeds with no image, the error matches \<open>ErrImageNotPresent\<close>
  (and not \<open>ErrListingImages\<close>) and its message ends with the requested reference. When
  the listing fails, the error matches \<open>ErrListingImages\<close> and the client's error, and
  does not match \<open>ErrImageNotPresent\<close>.
\<close>

theorem VerifyHaveImage_outcomes:
  "(fst (VerifyHaveImage cl dockerImage) = None \<longleftrightarrow>
      (\<exists>images. list_answer cl dockerImage = Inr images \<and> 0 < length images))
   \<and> (list_answer cl dockerImage = Inr [] \<longrightarrow>
        (\<exists>e. fst (VerifyHaveImage cl dockerImage) = Some e
           \<and> errors_Is e ErrImageNotPresent \<and> \<not> errors_Is e ErrListingImages
           \<and> Error e = ''docker image is not present: '' @ dockerImage))
   \<and> (\<forall>msg. list_answer cl dockerImage = Inl msg \<longrightarrow>
        (\<exists>e. fst (VerifyHaveImage cl dockerImage) = Some e
           \<and> errors_Is e ErrListingImages \<and> \<not> errors_Is e ErrImageNotPresent
           \<and> errors_Is e (External msg)))"
  by (auto simp: VerifyHaveImage_fst fmt_Errorf_def sentinel_defs split: sum.splits)


theorem VerifyHaveImage_outcomes_witness:
  "fst (VerifyHaveImage (stub_client (Inr [\<lparr>ID = ''sha256:1''\<rparr>]) (Inr []) (\<lambda>n. Inl ''gone'')) ''hashicorp/http-echo:latest'') = None
   \<and> (\<exists>e. fst (VerifyHaveImage (stub_client (Inr []) (Inr []) (\<lambda>n. Inl ''gone'')) ''some/madeup:image'') = Some e
         \<and> errors_Is e ErrImageNotPresent \<and> \<not> errors_Is e ErrListingImages
         \<and> Error e = ''docker image is not present: some/madeup:image'')
   \<and> (\<exists>e. fst (VerifyHaveImage (stub_client (Inl ''daemon down'') (Inr []) (\<lambda>n. Inl ''gone'')) ''some/madeup:image'') = Some e
         \<and> errors_Is e ErrListingImages \<and> \<not> errors_Is e ErrImageNotPresent
         \<and> errors_Is e (External ''daemon down''))"
proof -
  let ?have = "stub_client (Inr [\<lparr>ID = ''sha256:1''\<rparr>]) (Inr []) (\<lambda>n. Inl ''gone'')"
  let ?absent = "stub_client (Inr []) (Inr []) (\<lambda>n. Inl ''gone'')"
  let ?down = "stub_client (Inl ''daemon down'') (Inr []) (\<lambda>n. Inl ''gone'')"
  have a: "list_answer ?have ''hashicorp/http-echo:latest'' = Inr [\<lparr>ID = ''sha256:1''\<rparr>]"
    by (simp add: list_answer_def stub_client_def)
  have b: "list_answer ?absent ''some/madeup:image'' = Inr []"
    by (simp add: list_answer_def stub_client_def)
  have c: "list_answer ?down ''some/madeup:image'' = Inl ''daemon down''"
    by (simp add: list_answer_def stub_client_def)
  from VerifyHaveImage_outcomes [of ?have "''hashicorp/http-echo:latest''"] a
  have 1: "fst (VerifyHaveImage ?have ''hashicorp/http-echo:latest'') = None" by simp
  from VerifyHaveImage_outcomes [of ?absent "''some/madeup:image''"] b
  have 2: "\<exists>e. fst (VerifyHaveImage ?absent ''some/madeup:image'') = Some e
         \<and> errors_Is e ErrImageNotPresent \<and> \<not> errors_Is e ErrListingImages
         \<and> Error e = ''docker image is not present: some/madeup:image''" by simp
  from VerifyHaveImage_outcomes [of ?down "''some/madeup:image''"] c
  have 3: "\<exists>e. fst (VerifyHaveImage ?down ''some/madeup:image'') = Some e
         \<and> errors_Is e ErrListingImages \<and> \<not> errors_Is e ErrImageNotPresent
         \<and> errors_Is e (External ''daemon down'')" by simp
  from 1 2 3 show ?thesis by blast
qed

section \<open>PullImage\<close>

lemma io_Copy_Discard_ok:
  "fst (snd (io_Copy_Discard s)) = None \<longleftrightarrow> (\<forall>msg. ReadFails msg \<notin> set s)"
proof (induction s rule: io_Copy_Discard.induct)
  case 1
  show ?case by simp
next
  case (2 b rest)
  then show ?case by (auto split: prod.splits)
next
  case (3 msg rest)
  show ?case by auto
qed

lemma io_Copy_Discard_drained:
  "fst (snd (io_Copy_Discard s)) = None \<Longrightarrow>
     snd (snd (io_Copy_Discard s)) = map (\<lambda>r. StreamRead (Some r)) s @ [StreamRead None]"
proof (induction s rule: io_Copy_Discard.induct)
  case 1
  show ?case by simp
next
  case (2 b rest)
  then show ?case by (auto split: prod.splits)
next
  case (3 msg rest)
  then show ?case by simp
qed

lemma io_Copy_Discard_reads: "list_all is_read (snd (snd (io_Copy_Discard s)))"
  by (induction s rule: io_Copy_Discard.induct) (auto split: prod.splits)

lemma PullImage_fst:
  "fst (PullImage cl dockerImage) =
     (if fst (VerifyHaveImage cl dockerImage) = None then None
      else case pull_answer cl dockerImage of
             Inl msg \<Rightarrow> Some (JoinError [fmt_Errorf ErrPullingImage dockerImage, External msg])
           | Inr s \<Rightarrow>
               (case fst (snd (io_Copy_Discard s)) of
                  Some msg \<Rightarrow> Some (JoinError [ErrReadingPulledImage, External msg])
                | None \<Rightarrow> None))"
  by (simp add: PullImage_def pull_answer_def defer_cancel_def Let_def errors_Join_two
      split: prod.splits sum.splits option.splits)

lemma PullImage_snd:
  "snd (PullImage cl dockerImage) =
     snd (VerifyHaveImage cl dockerImage) @
     (if fst (VerifyHaveImage cl dockerImage) = None
      then [SlogInfo ''already have image, not pulling'' ''dockerImage'' dockerImage]
      else [SlogInfo ''did not have image, pulling'' ''dockerImage'' dockerImage,
            CallImagePull (WithTimeout Background dockerPullTimeout) dockerImage \<lparr>pull_All = False\<rparr>] @
           (case pull_answer cl dockerImage of
              Inl msg \<Rightarrow> []
            | Inr s \<Rightarrow>
                snd (snd (io_Copy_Discard s)) @
                (if fst (snd (io_Copy_Discard s)) = None
                 then [SlogInfo ''done pulling image'' ''dockerImage'' dockerImage] else [])) @
           [Cancel (WithTimeout Background dockerPullTimeout)])"
  by (simp add: PullImage_def pull_answer_def defer_cancel_def Let_def
      split: prod.splits sum.splits option.splits)

lemma filter_is_pull_reads: "filter is_pull (snd (snd (io_Copy_Discard s))) = []"
  by (induction s rule: io_Copy_Discard.induct) (auto split: prod.splits)

text \<open>
  C7. When the presence check returns nil, \<open>PullImage\<close> returns nil, makes no pull call on
  the client and reads no stream.
\<close>

theorem PullImage_present_no_pull:
  assumes "fst (VerifyHaveImage cl dockerImage) = None"
  shows "fst (PullImage cl dockerImage) = None
         \<and> length (filter is_pull (snd (PullImage cl dockerImage))) = 0
         \<and> length (filter is_read (snd (PullImage cl dockerImage))) = 0"
  using assms by (simp add: PullImage_fst PullImage_snd VerifyHaveImage_snd)

theorem PullImage_present_no_pull_witness:
  "fst (VerifyHaveImage (stub_client (Inr [\<lparr>ID = ''sha256:1''\<rparr>]) (Inl ''registry unreachable'') (\<lambda>n. Inl ''gone''))
          ''hashicorp/http-echo:latest'') = None
   \<and> fst (PullImage (stub_client (Inr [\<lparr>ID = ''sha256:1''\<rparr>]) (Inl ''registry unreachable'') (\<lambda>n. Inl ''gone''))
          ''hashicorp/http-echo:latest'') = None
   \<and> length (filter is_pull
        (snd (PullImage (stub_client (Inr [\<lparr>ID = ''sha256:1''\<rparr>]) (Inl ''registry unreachable'') (\<lambda>n. Inl ''gone''))
          ''hashicorp/http-echo:latest''))) = 0"
proof -
  let ?have = "stub_client (Inr [\<lparr>ID = ''sha256:1''\<rparr>]) (Inl ''registry unreachable'') (\<lambda>n. Inl ''gone'')"
  have v: "fst (VerifyHaveImage ?have ''hashicorp/http-echo:latest'') = None"
    by (simp add: VerifyHaveImage_fst list_answer_def stub_client_def)
  from PullImage_present_no_pull [OF v] v show ?thesis by simp
qed

lemma PullImage_fst_absent:
  assumes "fst (VerifyHaveImage cl dockerImage) \<noteq> None"
  shows "fst (PullImage cl dockerImage) =
     (case pull_answer cl dockerImage of
        Inl msg \<Rightarrow> Some (JoinError [fmt_Errorf ErrPullingImage dockerImage, External msg])
      | Inr s \<Rightarrow>
          (case fst (snd (io_Copy_Discard s)) of
             Some msg \<Rightarrow> Some (JoinError [ErrReadingPulledImage, External msg])
           | None \<Rightarrow> None))"
  unfolding PullImage_fst using assms by (simp only: if_False)

lemma PullImage_snd_absent:
  assumes "fst (VerifyHaveImage cl dockerImage) \<noteq> None"
  shows "snd (PullImage cl dockerImage) =
     snd (VerifyHaveImage cl dockerImage) @
     [SlogInfo ''did not have image, pulling'' ''dockerImage'' dockerImage,
      CallImagePull (WithTimeout Background dockerPullTimeout) dockerImage \<lparr>pull_All = False\<rparr>] @
     (case pull_answer cl dockerImage of
        Inl msg \<Rightarrow> []
      | Inr s \<Rightarrow>
          snd (snd (io_Copy_Discard s)) @
          (if fst (snd (io_Copy_Discard s)) = None
           then [SlogInfo ''done pulling image'' ''dockerImage'' dockerImage] else [])) @
     [Cancel (WithTimeout Background dockerPullTimeout)]"
  unfolding PullImage_snd using assms by (simp only: if_False)

text \<open>
  C1, as the code behaves. \<open>PullImage\<close> asks only whether the presence check returned nil.
  Here the listing fails, so the check returns an error matching \<open>ErrListingImages\<close> and
  not \<open>ErrImageNotPresent\<close>; all the same \<open>PullImage\<close> makes the pull call, the pull
  succeeds, and \<open>PullImage\<close> returns nil: the listing error is not returned.
\<close>

theorem PullImage_listing_error_counterexample:
  "fst (VerifyHaveImage (stub_client (Inl ''daemon down'') (Inr [Chunk ''layer'']) (\<lambda>n. Inl ''gone'')) ''some/madeup:image'')
     = Some (JoinError [ErrListingImages, External ''daemon down''])
   \<and> errors_Is (JoinError [ErrListingImages, External ''daemon down'']) ErrListingImages
   \<and> \<not> errors_Is (JoinError [ErrListingImages, External ''daemon down'']) ErrImageNotPresent
   \<and> filter is_pull (snd (PullImage (stub_client (Inl ''daemon down'') (Inr [Chunk ''layer'']) (\<lambda>n. Inl ''gone'')) ''some/madeup:image''))
     = [CallImagePull (WithTimeout Background dockerPullTimeout) ''some/madeup:image'' \<lparr>pull_All = False\<rparr>]
   \<and> fst (PullImage (stub_client (Inl ''daemon down'') (Inr [Chunk ''layer'']) (\<lambda>n. Inl ''gone'')) ''some/madeup:image'') = None"
  by (simp add: VerifyHaveImage_fst VerifyHaveImage_snd PullImage_fst PullImage_snd list_answer_def
      pull_answer_def stub_client_def sentinel_defs)

text \<open>
  C1, amended. When the presence check fails with a listing error, \<open>PullImage\<close> goes on as
  for an absent image: it makes exactly one pull call, under the pull context, and its
  result is that of the pull alone: nil when the pull answers with a stream whose reads do
  not fail, otherwise an error matching \<open>ErrPullingImage\<close> or \<open>ErrReadingPulledImage\<close>;
  the error it returns never matches \<open>ErrListingImages\<close>.
\<close>

theorem PullImage_listing_error_pulls:
  assumes "fst (VerifyHaveImage cl dockerImage) = Some e" and "errors_Is e ErrListingImages"
  shows "filter is_pull (snd (PullImage cl dockerImage))
           = [CallImagePull (WithTimeout Background dockerPullTimeout) dockerImage \<lparr>pull_All = False\<rparr>]
         \<and> (case fst (PullImage cl dockerImage) of
               None \<Rightarrow> \<exists>s. pull_answer cl dockerImage = Inr s \<and> (\<forall>msg. ReadFails msg \<notin> set s)
             | Some e' \<Rightarrow>
                 \<not> errors_Is e' ErrListingImages
                 \<and> (errors_Is e' ErrPullingImage \<or> errors_Is e' ErrReadingPulledImage))"
proof -
  from assms(1) have nv: "fst (VerifyHaveImage cl dockerImage) \<noteq> None" by simp
  have calls: "filter is_pull (snd (PullImage cl dockerImage))
           = [CallImagePull (WithTimeout Background dockerPullTimeout) dockerImage \<lparr>pull_All = False\<rparr>]"
    by (simp add: PullImage_snd_absent [OF nv] VerifyHaveImage_snd filter_is_pull_reads split: sum.splits)
  have res: "(case fst (PullImage cl dockerImage) of
               None \<Rightarrow> \<exists>s. pull_answer cl dockerImage = Inr s \<and> (\<forall>msg. ReadFails msg \<notin> set s)
             | Some e' \<Rightarrow>
                 \<not> errors_Is e' ErrListingImages
                 \<and> (errors_Is e' ErrPullingImage \<or> errors_Is e' ErrReadingPulledImage))"
  proof (cases "pull_answer cl dockerImage")
    case (Inl msg)
    then show ?thesis
      by (simp add: PullImage_fst_absent [OF nv] fmt_Errorf_def sentinel_defs)
  next
    case (Inr s)
    show ?thesis
    proof (cases "fst (snd (io_Copy_Discard s))")
      case None
      with Inr io_Copy_Discard_ok [of s] show ?thesis
        by (simp add: PullImage_fst_absent [OF nv])
    next
      case (Some msg)
      with Inr show ?thesis
        by (simp add: PullImage_fst_absent [OF nv] sentinel_defs)
    qed
  qed
  from calls res show ?thesis by blast
qed

theorem PullImage_listing_error_pulls_witness:
  "fst (VerifyHaveImage (stub_client (Inl ''daemon down'') (Inl ''registry unreachable'') (\<lambda>n. Inl ''gone'')) ''some/madeup:image'')
     = Some (JoinError [ErrListingImages, External ''daemon down''])
   \<and> errors_Is (JoinError [ErrListingImages, External ''daemon down'']) ErrListingImages
   \<and> filter is_pull (snd (PullImage (stub_client (Inl ''daemon down'') (Inl ''registry unreachable'') (\<lambda>n. Inl ''gone'')) ''some/madeup:image''))
     = [CallImagePull (WithTimeout Background dockerPullTimeout) ''some/madeup:image'' \<lparr>pull_All = False\<rparr>]
   \<and> (case fst (PullImage (stub_client (Inl ''daemon down'') (Inl ''registry unreachable'') (\<lambda>n. Inl ''gone'')) ''some/madeup:image'') of
         None \<Rightarrow> False
       | Some e' \<Rightarrow> \<not> errors_Is e' ErrListingImages \<and> errors_Is e' ErrPullingImage)"
proof -
  let ?cl = "stub_client (Inl ''daemon down'') (Inl ''registry unreachable'') (\<lambda>n. Inl ''gone'')"
  have v: "fst (VerifyHaveImage ?cl ''some/madeup:image'') = Some (JoinError [ErrListingImages, External ''daemon down''])"
    by (simp add: VerifyHaveImage_fst list_answer_def stub_client_def)
  have m: "errors_Is (JoinError [ErrListingImages, External ''daemon down'']) ErrListingImages"
    by (simp add: sentinel_defs)
  have p: "pull_answer ?cl ''some/madeup:image'' = Inl ''registry unreachable''"
    by (simp add: pull_answer_def stub_client_def)
  have r: "\<not> errors_Is (JoinError [fmt_Errorf ErrPullingImage ''some/madeup:image'', External ''registry unreachable'']) ErrReadingPulledImage"
    by (simp add: fmt_Errorf_def sentinel_defs)
  have f: "fst (PullImage ?cl ''some/madeup:image'')
      = Some (JoinError [fmt_Errorf ErrPullingImage ''some/madeup:image'', External ''registry unreachable''])"
    using v p by (simp add: PullImage_fst)
  from PullImage_listing_error_pulls [OF v m] v m f r show ?thesis
    by (simp del: errors_Is.simps)
qed

text \<open>
  C8. For a reference that goes on to a pull (the presence check did not return nil):
  a failing pull request gives an error matching \<open>ErrPullingImage\<close> and not
  \<open>ErrReadingPulledImage\<close>, whose message carries the reference, and no read is made;
  a failing read of the stream gives an error matching \<open>ErrReadingPulledImage\<close> and not
  \<open>ErrPullingImage\<close>; a stream whose reads do not fail gives nil; and whenever nil is
  returned after a pull, every chunk of the stream has been read, in order, followed by
  the read that meets the end of the stream.
\<close>

theorem PullImage_pull_outcomes:
  assumes "fst (VerifyHaveImage cl dockerImage) \<noteq> None"
  shows "(\<forall>msg. pull_answer cl dockerImage = Inl msg \<longrightarrow>
            (\<exists>e. fst (PullImage cl dockerImage) = Some e
               \<and> errors_Is e ErrPullingImage \<and> \<not> errors_Is e ErrReadingPulledImage
               \<and> errors_Is e (External msg)
               \<and> Error e = ''error pulling image: '' @ dockerImage @ [CHR 0x0A] @ msg
               \<and> filter is_read (snd (PullImage cl dockerImage)) = []))
       \<and> (\<forall>s msg. pull_answer cl dockerImage = Inr s \<and> ReadFails msg \<in> set s \<longrightarrow>
            (\<exists>e. fst (PullImage cl dockerImage) = Some e
               \<and> errors_Is e ErrReadingPulledImage \<and> \<not> errors_Is e ErrPullingImage))
       \<and> (\<forall>s. pull_answer cl dockerImage = Inr s \<and> (\<forall>msg. ReadFails msg \<notin> set s) \<longrightarrow>
            fst (PullImage cl dockerImage) = None)
       \<and> (\<forall>s. pull_answer cl dockerImage = Inr s \<and> fst (PullImage cl dockerImage) = None \<longrightarrow>
            filter is_read (snd (PullImage cl dockerImage))
              = map (\<lambda>r. StreamRead (Some r)) s @ [StreamRead None])"
proof (intro conjI allI impI)
  fix msg assume "pull_answer cl dockerImage = Inl msg"
  then show "\<exists>e. fst (PullImage cl dockerImage) = Some e
               \<and> errors_Is e ErrPullingImage \<and> \<not> errors_Is e ErrReadingPulledImage
               \<and> errors_Is e (External msg)
               \<and> Error e = ''error pulling image: '' @ dockerImage @ [CHR 0x0A] @ msg
               \<and> filter is_read (snd (PullImage cl dockerImage)) = []"
    by (simp add: PullImage_fst_absent [OF assms] PullImage_snd_absent [OF assms] VerifyHaveImage_snd
        fmt_Errorf_def sentinel_defs)
next
  fix s msg assume a: "pull_answer cl dockerImage = Inr s \<and> ReadFails msg \<in> set s"
  with io_Copy_Discard_ok [of s] obtain m where "fst (snd (io_Copy_Discard s)) = Some m"
    by (cases "fst (snd (io_Copy_Discard s))") auto
  with a show "\<exists>e. fst (PullImage cl dockerImage) = Some e
               \<and> errors_Is e ErrReadingPulledImage \<and> \<not> errors_Is e ErrPullingImage"
    by (simp add: PullImage_fst_absent [OF assms] sentinel_defs)
next
  fix s assume a: "pull_answer cl dockerImage = Inr s \<and> (\<forall>msg. ReadFails msg \<notin> set s)"
  with io_Copy_Discard_ok [of s] have "fst (snd (io_Copy_Discard s)) = None" by simp
  with a show "fst (PullImage cl dockerImage) = None"
    by (simp add: PullImage_fst_absent [OF assms])
next
  fix s assume a: "pull_answer cl dockerImage = Inr s \<and> fst (PullImage cl dockerImage) = None"
  then have ok: "fst (snd (io_Copy_Discard s)) = None"
    by (auto simp: PullImage_fst_absent [OF assms] split: option.splits)
  have "filter is_read (snd (snd (io_Copy_Discard s))) = snd (snd (io_Copy_Discard s))"
    using io_Copy_Discard_reads [of s] by (simp add: list_all_iff)
  with a ok io_Copy_Discard_drained [OF ok]
  show "filter is_read (snd (PullImage cl dockerImage))
              = map (\<lambda>r. StreamRead (Some r)) s @ [StreamRead None]"
    by (simp add: PullImage_snd_absent [OF assms] VerifyHaveImage_snd)
qed


theorem PullImage_pull_outcomes_witness:
  "(\<exists>e. fst (PullImage (stub_client (Inr []) (Inl ''registry unreachable'') (\<lambda>n. Inl ''gone'')) ''some/madeup:image'') = Some e
       \<and> errors_Is e ErrPullingImage \<and> \<not> errors_Is e ErrReadingPulledImage
       \<and> Error e = ''error pulling image: some/madeup:image'' @ [CHR 0x0A] @ ''registry unreachable'')
   \<and> (\<exists>e. fst (PullImage (stub_client (Inr []) (Inr [Chunk ''layer1'', ReadFails ''connection reset'']) (\<lambda>n. Inl ''gone''))
                  ''some/madeup:image'') = Some e
       \<and> errors_Is e ErrReadingPulledImage \<and> \<not> errors_Is e ErrPullingImage)
   \<and> fst (PullImage (stub_client (Inr []) (Inr [Chunk ''layer1'', Chunk ''layer2'']) (\<lambda>n. Inl ''gone''))
                  ''some/madeup:image'') = None
   \<and> filter is_read (snd (PullImage (stub_client (Inr []) (Inr [Chunk ''layer1'', Chunk ''layer2'']) (\<lambda>n. Inl ''gone''))
                  ''some/madeup:image''))
       = [StreamRead (Some (Chunk ''layer1'')), StreamRead (Some (Chunk ''layer2'')), StreamRead None]"
proof -
  let ?a = "stub_client (Inr []) (Inl ''registry unreachable'') (\<lambda>n. Inl ''gone'')"
  let ?b = "stub_client (Inr []) (Inr [Chunk ''layer1'', ReadFails ''connection reset'']) (\<lambda>n. Inl ''gone'')"
  let ?c = "stub_client (Inr []) (Inr [Chunk ''layer1'', Chunk ''layer2'']) (\<lambda>n. Inl ''gone'')"
  have va: "fst (VerifyHaveImage ?a ''some/madeup:image'') \<noteq> None"
    by (simp add: VerifyHaveImage_fst list_answer_def stub_client_def)
  have vb: "fst (VerifyHaveImage ?b ''some/madeup:image'') \<noteq> None"
    by (simp add: VerifyHaveImage_fst list_answer_def stub_client_def)
  have vc: "fst (VerifyHaveImage ?c ''some/madeup:image'') \<noteq> None"
    by (simp add: VerifyHaveImage_fst list_answer_def stub_client_def)
  have pa: "pull_answer ?a ''some/madeup:image'' = Inl ''registry unreachable''"
    by (simp add: pull_answer_def stub_client_def)
  have pb: "pull_answer ?b ''some/madeup:image'' = Inr [Chunk ''layer1'', ReadFails ''connection reset'']"
    by (simp add: pull_answer_def stub_client_def)
  have pc: "pull_answer ?c ''some/madeup:image'' = Inr [Chunk ''layer1'', Chunk ''layer2'']"
    by (simp add: pull_answer_def stub_client_def)
  from PullImage_pull_outcomes [OF va] pa
  have 1: "\<exists>e. fst (PullImage ?a ''some/madeup:image'') = Some e
       \<and> errors_Is e ErrPullingImage \<and> \<not> errors_Is e ErrReadingPulledImage
       \<and> Error e = ''error pulling image: some/madeup:image'' @ [CHR 0x0A] @ ''registry unreachable''"
    by auto
  from PullImage_pull_outcomes [OF vb] pb
  have 2: "\<exists>e. fst (PullImage ?b ''some/madeup:image'') = Some e
       \<and> errors_Is e ErrReadingPulledImage \<and> \<not> errors_Is e ErrPullingImage"
    by auto
  from PullImage_pull_outcomes [OF vc] pc
  have 3: "fst (PullImage ?c ''some/madeup:image'') = None"
    by simp
  from PullImage_pull_outcomes [OF vc] pc 3
  have 4: "filter is_read (snd (PullImage ?c ''some/madeup:image''))
       = [StreamRead (Some (Chunk ''layer1'')), StreamRead (Some (Chunk ''layer2'')), StreamRead None]"
    by simp
  from 1 2 3 4 show ?thesis by blast
qed

section \<open>StartContainer: the poll loop\<close>

lemma poll_ticks:
  assumes "\<forall>k<m. case ContainerInspect cl (n + k) c containerID of
                    Inl msg \<Rightarrow> False | Inr state \<Rightarrow> \<not> Running (State state)"
  shows "poll cl c containerID n (replicate m TickerC @ rest) =
           (fst (poll cl c containerID (n + m) rest),
            replicate m (CallContainerInspect c containerID) @ snd (poll cl c containerID (n + m) rest))"
  using assms
proof (induction m arbitrary: n)
  case 0
  show ?case by simp
next
  case (Suc m)
  from Suc.prems have here: "case ContainerInspect cl n c containerID of
                    Inl msg \<Rightarrow> False | Inr state \<Rightarrow> \<not> Running (State state)"
    by (metis add.right_neutral zero_less_Suc)
  have "\<forall>k<m. case ContainerInspect cl (Suc n + k) c containerID of
                    Inl msg \<Rightarrow> False | Inr state \<Rightarrow> \<not> Running (State state)"
  proof (intro allI impI)
    fix k assume "k < m"
    then have "Suc k < Suc m" by simp
    with Suc.prems show "case ContainerInspect cl (Suc n + k) c containerID of
                    Inl msg \<Rightarrow> False | Inr state \<Rightarrow> \<not> Running (State state)"
      by (metis add_Suc_shift)
  qed
  from Suc.IH [OF this] here show ?case
    by (simp split: sum.splits prod.splits)
qed

text \<open>
  C3. \<open>StartContainer\<close> starts the container under a context with a timeout of 10
  seconds and polls with a ticker of 100 milliseconds, one inspection for each tick. When
  the context's \<open>Done\<close> is received after any number of ticks whose inspections all
  reported a container that is not running, \<open>StartContainer\<close> returns \<open>ErrTimeout\<close>
  itself, whatever would have come next.
\<close>

theorem StartContainer_timeout:
  assumes "ContainerStart cl (WithTimeout Background (10 * Second)) containerID = None"
    and "\<forall>k<m. not_running cl containerID k"
  shows "StartContainer cl containerID (replicate m TickerC @ CtxDone # rest) =
           (Some (Some ErrTimeout),
            [CallContainerStart (WithTimeout Background (10 * Second)) containerID,
             NewTicker (100 * Millisecond)] @
            replicate m (CallContainerInspect (WithTimeout Background (10 * Second)) containerID) @
            [TickerStop, Cancel (WithTimeout Background (10 * Second))])"
proof -
  let ?c = "WithTimeout Background dockerStartContainerTimeout"
  from assms(2) have "\<forall>k<m. case ContainerInspect cl (0 + k) ?c containerID of
                    Inl msg \<Rightarrow> False | Inr state \<Rightarrow> \<not> Running (State state)"
    by (simp add: not_running_def)
  from poll_ticks [OF this, of "CtxDone # rest"]
  have "poll cl ?c containerID 0 (replicate m TickerC @ CtxDone # rest) =
          (Some (Some ErrTimeout), replicate m (CallContainerInspect ?c containerID))"
    by simp
  with assms(1) show ?thesis
    by (simp add: StartContainer_def Let_def dockerStartContainerTimeout_def)
qed

theorem StartContainer_timeout_witness:
  "StartContainer (stub_client (Inr []) (Inr []) (\<lambda>n. Inr \<lparr>State = \<lparr>Running = False\<rparr>\<rparr>)) ''c0ffee''
     [TickerC, TickerC, TickerC, CtxDone, TickerC] =
     (Some (Some ErrTimeout),
      [CallContainerStart (WithTimeout Background (10 * Second)) ''c0ffee'',
       NewTicker (100 * Millisecond),
       CallContainerInspect (WithTimeout Background (10 * Second)) ''c0ffee'',
       CallContainerInspect (WithTimeout Background (10 * Second)) ''c0ffee'',
       CallContainerInspect (WithTimeout Background (10 * Second)) ''c0ffee'',
       TickerStop, Cancel (WithTimeout Background (10 * Second))])"
proof -
  let ?cl = "stub_client (Inr []) (Inr []) (\<lambda>n. Inr \<lparr>State = \<lparr>Running = False\<rparr>\<rparr>)"
  have started: "ContainerStart ?cl (WithTimeout Background (10 * Second)) ''c0ffee'' = None"
    by (simp add: stub_client_def)
  have idle: "\<forall>k<3. not_running ?cl ''c0ffee'' k"
    by (simp add: not_running_def stub_client_def)
  from StartContainer_timeout [OF started idle, of "[TickerC]"] show ?thesis
    by (simp add: numeral_3_eq_3)
qed

text \<open>
  C4. When an inspection made in the poll loop fails, \<open>StartContainer\<close> returns at once:
  no further inspection is made, whatever ticks would follow. The error matches
  \<open>ErrStartingContainer\<close> and the client's error, not \<open>ErrTimeout\<close>, and its message
  holds the container ID and the cause.
\<close>

theorem StartContainer_inspect_fails:
  assumes "ContainerStart cl (WithTimeout Background (10 * Second)) containerID = None"
    and "\<forall>k<m. not_running cl containerID k"
    and "ContainerInspect cl m (WithTimeout Background (10 * Second)) containerID = Inl msg"
  shows "\<exists>e. StartContainer cl containerID (replicate m TickerC @ TickerC # rest) =
           (Some (Some e),
            [CallContainerStart (WithTimeout Background (10 * Second)) containerID,
             NewTicker (100 * Millisecond)] @
            replicate (Suc m) (CallContainerInspect (WithTimeout Background (10 * Second)) containerID) @
            [TickerStop, Cancel (WithTimeout Background (10 * Second))])
         \<and> errors_Is e ErrStartingContainer \<and> errors_Is e (External msg) \<and> \<not> errors_Is e ErrTimeout
         \<and> Error e = ''error starting container: '' @ containerID @ [CHR 0x0A] @ msg"
proof -
  let ?c = "WithTimeout Background dockerStartContainerTimeout"
  let ?e = "JoinError [fmt_Errorf ErrStartingContainer containerID, External msg]"
  from assms(2) have "\<forall>k<m. case ContainerInspect cl (0 + k) ?c containerID of
                    Inl msg \<Rightarrow> False | Inr state \<Rightarrow> \<not> Running (State state)"
    by (simp add: not_running_def)
  from poll_ticks [OF this, of "TickerC # rest"] assms(3)
  have "poll cl ?c containerID 0 (replicate m TickerC @ TickerC # rest) =
          (Some (Some ?e), replicate m (CallContainerInspect ?c containerID) @ [CallContainerInspect ?c containerID])"
    by (simp add: errors_Join_two dockerStartContainerTimeout_def)
  with assms(1) have "StartContainer cl containerID (replicate m TickerC @ TickerC # rest) =
           (Some (Some ?e),
            [CallContainerStart (WithTimeout Background (10 * Second)) containerID,
             NewTicker (100 * Millisecond)] @
            replicate (Suc m) (CallContainerInspect (WithTimeout Background (10 * Second)) containerID) @
            [TickerStop, Cancel (WithTimeout Background (10 * Second))])"
    by (simp add: StartContainer_def Let_def dockerStartContainerTimeout_def replicate_append_same)
  moreover have "errors_Is ?e ErrStartingContainer \<and> errors_Is ?e (External msg) \<and> \<not> errors_Is ?e ErrTimeout
         \<and> Error ?e = ''error starting container: '' @ containerID @ [CHR 0x0A] @ msg"
    by (simp add: fmt_Errorf_def sentinel_defs)
  ultimately show ?thesis by blast
qed


theorem StartContainer_inspect_fails_witness:
  "\<exists>e. StartContainer
          (stub_client (Inr []) (Inr [])
             (\<lambda>n. if n < 2 then Inr \<lparr>State = \<lparr>Running = False\<rparr>\<rparr> else Inl ''no such container''))
          ''c0ffee'' [TickerC, TickerC, TickerC, TickerC, CtxDone] =
        (Some (Some e),
         [CallContainerStart (WithTimeout Background (10 * Second)) ''c0ffee'',
          NewTicker (100 * Millisecond),
          CallContainerInspect (WithTimeout Background (10 * Second)) ''c0ffee'',
          CallContainerInspect (WithTimeout Background (10 * Second)) ''c0ffee'',
          CallContainerInspect (WithTimeout Background (10 * Second)) ''c0ffee'',
          TickerStop, Cancel (WithTimeout Background (10 * Second))])
      \<and> errors_Is e ErrStartingContainer \<and> errors_Is e (External ''no such container'')
      \<and> \<not> errors_Is e ErrTimeout
      \<and> Error e = ''error starting container: c0ffee'' @ [CHR 0x0A] @ ''no such container''"
proof -
  let ?cl = "stub_client (Inr []) (Inr [])
     (\<lambda>n. if n < 2 then Inr \<lparr>State = \<lparr>Running = False\<rparr>\<rparr> else Inl ''no such container'')"
  have started: "ContainerStart ?cl (WithTimeout Background (10 * Second)) ''c0ffee'' = None"
    by (simp add: stub_client_def)
  have idle: "\<forall>k<2. not_running ?cl ''c0ffee'' k"
    by (simp add: not_running_def stub_client_def)
  have broken: "ContainerInspect ?cl 2 (WithTimeout Background (10 * Second)) ''c0ffee'' = Inl ''no such container''"
    by (simp add: stub_client_def)
  from StartContainer_inspect_fails [OF started idle broken, of "[TickerC, CtxDone]"] show ?thesis
    by (simp add: numeral_2_eq_2)
qed

section \<open>CreateContainer: the port translation\<close>

lemma port_loop_lookup:
  "port_loop NewPort ports portmap = Inr pm \<Longrightarrow>
     pm p = (case last_host NewPort ports p of None \<Rightarrow> portmap p | Some h \<Rightarrow> Some (bind_all h))"
proof (induction ports arbitrary: portmap)
  case Nil
  then show ?case by (simp add: last_host_def)
next
  case (Cons entry rest)
  obtain h c where entry: "entry = (h, c)" by (cases entry)
  show ?case
  proof (cases "NewPort ''tcp'' c")
    case (Inl msg)
    with Cons.prems entry show ?thesis by simp
  next
    case (Inr q)
    with Cons.prems entry
    have "port_loop NewPort rest (portmap(q \<mapsto> [\<lparr>HostIP = ''0.0.0.0'', HostPort = h\<rparr>])) = Inr pm"
      by simp
    from Cons.IH [OF this] entry Inr show ?thesis
      by (auto simp: last_host_def bind_all_def map_add_def split: option.splits)
  qed
qed

lemma port_loop_valid:
  "all_valid NewPort ports \<Longrightarrow> \<exists>pm. port_loop NewPort ports portmap = Inr pm"
  by (induction ports arbitrary: portmap) (auto simp: all_valid_def split: sum.splits)

lemma port_loop_invalid:
  "(h, c) \<in> set ports \<Longrightarrow> NewPort ''tcp'' c = Inl msg \<Longrightarrow>
     \<exists>m. port_loop NewPort ports portmap = Inl (Some (JoinError [ErrPortMap, External m]))"
  by (induction ports arbitrary: portmap) (auto simp: errors_Join_two split: sum.splits)

lemma all_valid_entry:
  assumes "all_valid NewPort ports" and "(h, c) \<in> set ports"
  shows "\<exists>p. NewPort ''tcp'' c = Inr p"
proof (cases "NewPort ''tcp'' c")
  case (Inl msg)
  from assms have "case NewPort ''tcp'' c of Inl msg \<Rightarrow> False | Inr p \<Rightarrow> True"
    unfolding all_valid_def list_all_iff by fastforce
  with Inl show ?thesis by simp
next
  case (Inr p)
  then show ?thesis by blast
qed

lemma last_host_Some:
  "last_host NewPort ports p = Some h \<Longrightarrow> \<exists>c. (h, c) \<in> set ports \<and> NewPort ''tcp'' c = Inr p"
proof -
  assume "last_host NewPort ports p = Some h"
  then have "(Inr p, h) \<in> set (map (\<lambda>(h, c). (NewPort ''tcp'' c, h)) ports)"
    unfolding last_host_def by (auto dest!: map_of_SomeD)
  then obtain c where "(h, c) \<in> set ports" and "Inr p = NewPort ''tcp'' c"
    by auto
  then have "(h, c) \<in> set ports \<and> NewPort ''tcp'' c = Inr p" by simp
  then show ?thesis ..
qed

lemma last_host_defined:
  "(h, c) \<in> set ports \<Longrightarrow> NewPort ''tcp'' c = Inr p \<Longrightarrow> \<exists>h'. last_host NewPort ports p = Some h'"
proof -
  assume "(h, c) \<in> set ports" and "NewPort ''tcp'' c = Inr p"
  then have "Inr p \<in> fst ` set (rev (map (\<lambda>(h, c). (NewPort ''tcp'' c, h)) ports))"
    by force
  then show ?thesis
    unfolding last_host_def by (metis map_of_eq_None_iff not_None_eq)
qed

text \<open>
  C5. When some entry of the ports map has a container port that \<open>nat.NewPort\<close> rejects,
  \<open>CreateContainer\<close> returns the empty container ID with an error matching \<open>ErrPortMap\<close>,
  and it has done nothing on the client: no create call is made, in whatever order the map
  is visited, so nothing of the entries translated before is used.
\<close>

theorem CreateContainer_invalid_port:
  assumes "(hPort, cPort) \<in> set ports" and "NewPort ''tcp'' cPort = Inl msg"
  shows "\<exists>e. CreateContainer NewPort cl dockerImage containerName ports = (('''', Some e), [])
           \<and> errors_Is e ErrPortMap \<and> \<not> errors_Is e ErrCreatingContainer"
proof -
  from assms port_loop_invalid [where NewPort = NewPort and ports = ports and h = hPort and c = cPort
      and msg = msg and portmap = Map.empty]
  obtain m where "port_loop NewPort ports Map.empty = Inl (Some (JoinError [ErrPortMap, External m]))"
    by blast
  then have "CreateContainer NewPort cl dockerImage containerName ports =
               (('''', Some (JoinError [ErrPortMap, External m])), [])"
    by (simp add: CreateContainer_def)
  moreover have "errors_Is (JoinError [ErrPortMap, External m]) ErrPortMap
      \<and> \<not> errors_Is (JoinError [ErrPortMap, External m]) ErrCreatingContainer"
    by (simp add: sentinel_defs)
  ultimately show ?thesis by blast
qed

theorem CreateContainer_invalid_port_witness:
  "\<exists>e. CreateContainer nat_NewPort (stub_client (Inr []) (Inr []) (\<lambda>n. Inl ''gone''))
          ''hashicorp/http-echo:latest'' ''test-1'' [(''8080'', ''5678''), (''9090'', ''abc'')] = (('''', Some e), [])
       \<and> errors_Is e ErrPortMap \<and> \<not> errors_Is e ErrCreatingContainer"
proof -
  have member: "(''9090'', ''abc'') \<in> set [(''8080'', ''5678''), (''9090'', ''abc'')]" by simp
  have invalid: "nat_NewPort ''tcp'' ''abc'' = Inl ''invalid port: abc''"
    by (simp add: nat_NewPort_def is_digit_def)
  from member invalid
    CreateContainer_invalid_port [where NewPort = nat_NewPort and hPort = "''9090''" and cPort = "''abc''"
      and ports = "[(''8080'', ''5678''), (''9090'', ''abc'')]" and msg = "''invalid port: abc''"]
  show ?thesis by blast
qed

text \<open>
  C6, as the code behaves. Both container ports are valid and they are the same port, so
  the second entry visited overwrites the binding of the first: the token \<open>80/tcp\<close> is
  bound to host port 9090 only, and the entry with host port 8080 has no binding with its
  own host port.
\<close>

theorem port_translation_counterexample:
  "all_valid nat_NewPort [(''8080'', ''80''), (''9090'', ''80'')]
   \<and> nat_NewPort ''tcp'' ''80'' = Inr ''80/tcp''
   \<and> port_loop nat_NewPort [(''8080'', ''80''), (''9090'', ''80'')] Map.empty
       = Inr [''80/tcp'' \<mapsto> [\<lparr>HostIP = ''0.0.0.0'', HostPort = ''9090''\<rparr>]]
   \<and> [''80/tcp'' \<mapsto> [\<lparr>HostIP = ''0.0.0.0'', HostPort = ''9090''\<rparr>]] ''80/tcp''
       \<noteq> Some [\<lparr>HostIP = ''0.0.0.0'', HostPort = ''8080''\<rparr>]"
  by (simp add: all_valid_def nat_NewPort_def is_digit_def)

text \<open>
  C6, amended. For a ports map whose container ports are all valid, the translation
  succeeds and its result is what the create call receives. In the result every token is
  bound to a list of exactly one binding, with host IP \<open>0.0.0.0\<close> and the host port of
  an entry whose container port gives that token; the token of every entry is bound; and
  for an entry whose token is given by no entry with another host port, the binding holds
  the entry's own host port.
\<close>

theorem port_translation:
  assumes "all_valid NewPort ports"
  shows "\<exists>pm. port_loop NewPort ports Map.empty = Inr pm
     \<and> snd (CreateContainer NewPort cl dockerImage containerName ports) =
         [CallContainerCreate (WithTimeout Background (10 * Second))
            \<lparr>cfg_Image = dockerImage, cfg_Tty = False\<rparr>
            \<lparr>hc_PortBindings = pm, hc_AutoRemove = True\<rparr> None None containerName,
          Cancel (WithTimeout Background (10 * Second))]
     \<and> (\<forall>p bs. pm p = Some bs \<longrightarrow>
          (\<exists>h c. (h, c) \<in> set ports \<and> NewPort ''tcp'' c = Inr p
                \<and> bs = [\<lparr>HostIP = ''0.0.0.0'', HostPort = h\<rparr>]))
     \<and> (\<forall>h c p. (h, c) \<in> set ports \<and> NewPort ''tcp'' c = Inr p \<longrightarrow>
          (\<exists>h'. pm p = Some [\<lparr>HostIP = ''0.0.0.0'', HostPort = h'\<rparr>])
          \<and> ((\<forall>h' c'. (h', c') \<in> set ports \<and> NewPort ''tcp'' c' = Inr p \<longrightarrow> h' = h) \<longrightarrow>
               pm p = Some [\<lparr>HostIP = ''0.0.0.0'', HostPort = h\<rparr>]))"
proof -
  from port_loop_valid [OF assms] obtain pm where pm: "port_loop NewPort ports Map.empty = Inr pm"
    by blast
  have look: "pm p = (case last_host NewPort ports p of None \<Rightarrow> None | Some h \<Rightarrow> Some (bind_all h))" for p
    using port_loop_lookup [OF pm, of p] by simp
  have log: "snd (CreateContainer NewPort cl dockerImage containerName ports) =
         [CallContainerCreate (WithTimeout Background (10 * Second))
            \<lparr>cfg_Image = dockerImage, cfg_Tty = False\<rparr>
            \<lparr>hc_PortBindings = pm, hc_AutoRemove = True\<rparr> None None containerName,
          Cancel (WithTimeout Background (10 * Second))]"
    using pm by (simp add: CreateContainer_def Let_def defer_cancel_def dockerCreateContainerTimeout_def
        split: sum.splits)
  have out: "\<exists>h c. (h, c) \<in> set ports \<and> NewPort ''tcp'' c = Inr p
                \<and> bs = [\<lparr>HostIP = ''0.0.0.0'', HostPort = h\<rparr>]" if "pm p = Some bs" for p bs
  proof -
    from that look [of p] obtain h where h: "last_host NewPort ports p = Some h" and bs: "bs = bind_all h"
      by (auto split: option.splits)
    from last_host_Some [OF h] bs show ?thesis by (auto simp: bind_all_def)
  qed
  have entry: "(\<exists>h'. pm p = Some [\<lparr>HostIP = ''0.0.0.0'', HostPort = h'\<rparr>])
          \<and> ((\<forall>h' c'. (h', c') \<in> set ports \<and> NewPort ''tcp'' c' = Inr p \<longrightarrow> h' = h) \<longrightarrow>
               pm p = Some [\<lparr>HostIP = ''0.0.0.0'', HostPort = h\<rparr>])"
    if "(h, c) \<in> set ports \<and> NewPort ''tcp'' c = Inr p" for h c p
  proof -
    from that last_host_defined [where NewPort = NewPort and ports = ports and h = h and c = c and p = p]
    obtain h' where h': "last_host NewPort ports p = Some h'" by blast
    with look [of p] have 1: "pm p = Some [\<lparr>HostIP = ''0.0.0.0'', HostPort = h'\<rparr>]"
      by (simp add: bind_all_def)
    from last_host_Some [OF h'] obtain c' where "(h', c') \<in> set ports \<and> NewPort ''tcp'' c' = Inr p"
      by blast
    with 1 show ?thesis by blast
  qed
  from pm log out entry show ?thesis by blast
qed


theorem port_translation_witness:
  "all_valid nat_NewPort [(''8080'', ''5678''), (''9090'', ''80'')]
   \<and> (\<exists>pm. port_loop nat_NewPort [(''8080'', ''5678''), (''9090'', ''80'')] Map.empty = Inr pm
          \<and> pm ''5678/tcp'' = Some [\<lparr>HostIP = ''0.0.0.0'', HostPort = ''8080''\<rparr>]
          \<and> pm ''80/tcp'' = Some [\<lparr>HostIP = ''0.0.0.0'', HostPort = ''9090''\<rparr>])"
proof -
  let ?ports = "[(''8080'', ''5678''), (''9090'', ''80'')]"
  have valid: "all_valid nat_NewPort ?ports"
    by (simp add: all_valid_def nat_NewPort_def is_digit_def)
  have a: "nat_NewPort ''tcp'' ''5678'' = Inr ''5678/tcp''"
    by (simp add: nat_NewPort_def is_digit_def)
  have b: "nat_NewPort ''tcp'' ''80'' = Inr ''80/tcp''"
    by (simp add: nat_NewPort_def is_digit_def)
  from port_translation [OF valid, of "stub_client (Inr []) (Inr []) (\<lambda>n. Inl ''gone'')" "[]" "[]"]
  obtain pm where pm: "port_loop nat_NewPort ?ports Map.empty = Inr pm"
    and each: "\<forall>h c p. (h, c) \<in> set ?ports \<and> nat_NewPort ''tcp'' c = Inr p \<longrightarrow>
          (\<exists>h'. pm p = Some [\<lparr>HostIP = ''0.0.0.0'', HostPort = h'\<rparr>])
          \<and> ((\<forall>h' c'. (h', c') \<in> set ?ports \<and> nat_NewPort ''tcp'' c' = Inr p \<longrightarrow> h' = h) \<longrightarrow>
               pm p = Some [\<lparr>HostIP = ''0.0.0.0'', HostPort = h\<rparr>])"
    by blast
  from each [rule_format, of "''8080''" "''5678''" "''5678/tcp''"] a b
  have 1: "pm ''5678/tcp'' = Some [\<lparr>HostIP = ''0.0.0.0'', HostPort = ''8080''\<rparr>]"
    by auto
  from each [rule_format, of "''9090''" "''80''" "''80/tcp''"] a b
  have 2: "pm ''80/tcp'' = Some [\<lparr>HostIP = ''0.0.0.0'', HostPort = ''9090''\<rparr>]"
    by auto
  from valid pm 1 2 show ?thesis by blast
qed




section \<open>The deadline of each operation\<close>













end
